theory Spec2Isabelle
  imports Main
begin

section \<open>JavaScript values\<close>

text \<open>
  The values that flow through \<^verbatim>\<open>lib/Interactor/WebsocketTransport.js\<close>: the
  primitives, arrays, plain objects (own properties in the order the runtime enumerates
  them, which is the order of insertion for names that are not array indices), function
  values (identified by a number; a call of one is recorded, its body is not part of
  the file) and instances of \<^verbatim>\<open>Error\<close> (with their name and message). Numbers are
  NaN and the integers a double holds exactly and writes in plain decimal (those below
  \<open>2 ^ 53\<close> in magnitude); \<open>JNum\<close> of another integer stands for no value.
\<close>

datatype jsval =
    JUndefined
  | JNull
  | JBool bool
  | JNum int
  | JNaN
  | JStr string
  | JArr "jsval list"
  | JObj "(string \<times> jsval) list"
  | JFun nat
  | JError string string

text \<open>ToBoolean: what \<^verbatim>\<open>if (x)\<close>, \<^verbatim>\<open>!x\<close>, \<^verbatim>\<open>x || y\<close> and \<^verbatim>\<open>x && y\<close> test.\<close>

fun truthy :: "jsval \<Rightarrow> bool" where
  "truthy JUndefined = False"
| "truthy JNull = False"
| "truthy (JBool b) = b"
| "truthy (JNum n) = (n \<noteq> 0)"
| "truthy JNaN = False"
| "truthy (JStr s) = (s \<noteq> [])"
| "truthy (JArr xs) = True"
| "truthy (JObj fs) = True"
| "truthy (JFun f) = True"
| "truthy (JError n m) = True"

text \<open>\<^verbatim>\<open>!x\<close>, \<^verbatim>\<open>x || y\<close> and \<^verbatim>\<open>typeof x === 'function'\<close>.\<close>

definition js_not :: "jsval \<Rightarrow> jsval" where
  "js_not x = JBool (if truthy x then False else True)"

definition js_or :: "jsval \<Rightarrow> jsval \<Rightarrow> jsval" where
  "js_or x y = (if truthy x then x else y)"

fun is_function :: "jsval \<Rightarrow> bool" where
  "is_function (JFun f) = True"
| "is_function v = False"

text \<open>
  An exception is a thrown value. \<open>TypeError\<close> builds what the runtime throws on a
  property read from \<^verbatim>\<open>null\<close> or \<^verbatim>\<open>undefined\<close> and what the libraries throw
  on an argument they refuse; the wording of a message varies with the version of the
  runtime and of the library. \<^verbatim>\<open>x instanceof Error\<close> is \<open>is_Error\<close>.
\<close>

definition TypeError :: "string \<Rightarrow> jsval" where
  "TypeError m = JError ''TypeError'' m"

definition RangeError :: "string \<Rightarrow> jsval" where
  "RangeError m = JError ''RangeError'' m"

definition Error :: "string \<Rightarrow> jsval" where
  "Error m = JError ''Error'' m"

fun is_Error :: "jsval \<Rightarrow> bool" where
  "is_Error (JError n m) = True"
| "is_Error v = False"

definition null_read :: "string \<Rightarrow> string \<Rightarrow> jsval" where
  "null_read k v = TypeError (''Cannot read property '' @ k @ '' of '' @ v)"

text \<open>
  Property read \<^verbatim>\<open>x.k\<close>, for the names the source reads (\<^verbatim>\<open>version\<close>,
  \<^verbatim>\<open>payload\<close>, \<^verbatim>\<open>channel\<close>, \<^verbatim>\<open>message\<close>): an own property of a plain object,
  the message of an error, \<^verbatim>\<open>undefined\<close> on a primitive, an array or a function
  (none of them has a property of these names), a TypeError on \<^verbatim>\<open>null\<close> and
  \<^verbatim>\<open>undefined\<close>.
\<close>

fun get :: "jsval \<Rightarrow> string \<Rightarrow> jsval + jsval" where
  "get JUndefined k = Inl (null_read k ''undefined'')"
| "get JNull k = Inl (null_read k ''null'')"
| "get (JObj fs) k = Inr (case map_of fs k of None \<Rightarrow> JUndefined | Some v \<Rightarrow> v)"
| "get (JError n m) k = Inr (if k = ''message'' then JStr m else JUndefined)"
| "get v k = Inr JUndefined"

text \<open>Whether an object has the key at all, whatever its value.\<close>

fun has_key :: "jsval \<Rightarrow> string \<Rightarrow> bool" where
  "has_key (JObj fs) k = (map_of fs k \<noteq> None)"
| "has_key v k = False"

subsection \<open>JSON.stringify\<close>

fun digit :: "nat \<Rightarrow> char" where
  "digit n = ''0123456789abcdef'' ! (n mod 16)"

text \<open>Number to string, for the integers: decimal digits, a minus sign below zero.\<close>

fun digits :: "nat \<Rightarrow> string" where
  "digits n = (if n < 10 then [digit n] else digits (n div 10) @ [digit (n mod 10)])"

declare digits.simps [simp del]

definition number_to_string :: "int \<Rightarrow> string" where
  "number_to_string i = (if 0 \<le> i then digits (nat i) else CHR ''-'' # digits (nat (- i)))"

text \<open>
  The escapes of a JSON string: the quote, the backslash, the five short escapes of the
  control characters, \<^verbatim>\<open>\u00XX\<close> for the other characters below 0x20.
\<close>

definition escape_char :: "char \<Rightarrow> string" where
  "escape_char c =
     (if c = CHR 0x22 then [CHR 0x5C, CHR 0x22]
      else if c = CHR 0x5C then [CHR 0x5C, CHR 0x5C]
      else if c = CHR 0x08 then [CHR 0x5C, CHR ''b'']
      else if c = CHR 0x0C then [CHR 0x5C, CHR ''f'']
      else if c = CHR 0x0A then [CHR 0x5C, CHR ''n'']
      else if c = CHR 0x0D then [CHR 0x5C, CHR ''r'']
      else if c = CHR 0x09 then [CHR 0x5C, CHR ''t'']
      else if (of_char c :: nat) < 32
        then [CHR 0x5C, CHR ''u'', CHR ''0'', CHR ''0'', digit (of_char c div 16), digit (of_char c mod 16)]
      else [c])"

definition quote :: "string \<Rightarrow> string" where
  "quote s = [CHR 0x22] @ concat (map escape_char s) @ [CHR 0x22]"

fun join :: "string list \<Rightarrow> string" where
  "join [] = []"
| "join [x] = x"
| "join (x # y # ys) = x @ '','' @ join (y # ys)"

text \<open>
  \<open>ser v\<close> is \<open>None\<close> where \<^verbatim>\<open>JSON.stringify\<close> gives \<^verbatim>\<open>undefined\<close>
  (\<^verbatim>\<open>undefined\<close> and functions). Such a value is \<^verbatim>\<open>null\<close> inside an array
  and its key is left out of an object. NaN is \<^verbatim>\<open>null\<close>. An error has no
  enumerable property and is \<^verbatim>\<open>{}\<close>.
\<close>

fun ser :: "jsval \<Rightarrow> string option"
  and ser_elems :: "jsval list \<Rightarrow> string list"
  and ser_members :: "(string \<times> jsval) list \<Rightarrow> string list" where
  "ser JUndefined = None"
| "ser JNull = Some ''null''"
| "ser (JBool b) = Some (if b then ''true'' else ''false'')"
| "ser (JNum n) = Some (number_to_string n)"
| "ser JNaN = Some ''null''"
| "ser (JStr s) = Some (quote s)"
| "ser (JArr xs) = Some (''['' @ join (ser_elems xs) @ '']'')"
| "ser (JObj fs) = Some (''{'' @ join (ser_members fs) @ ''}'')"
| "ser (JFun f) = None"
| "ser (JError n m) = Some ''{}''"
| "ser_elems [] = []"
| "ser_elems (x # xs) = (case ser x of None \<Rightarrow> ''null'' | Some t \<Rightarrow> t) # ser_elems xs"
| "ser_members [] = []"
| "ser_members (kv # fs) =
     (case ser (snd kv) of
        None \<Rightarrow> ser_members fs
      | Some t \<Rightarrow> (quote (fst kv) @ '':'' @ t) # ser_members fs)"

definition JSON_stringify :: "jsval \<Rightarrow> jsval" where
  "JSON_stringify v = (case ser v of None \<Rightarrow> JUndefined | Some t \<Rightarrow> JStr t)"

section \<open>The collaborators\<close>

text \<open>
  What the file requires and does not define: \<^verbatim>\<open>Utility.Cipher.cipherMessage\<close> of
  \<^verbatim>\<open>./Utility.js\<close> and the two constants it reads from \<^verbatim>\<open>../../constants.js\<close>.
  They are parameters of the model, and so is the URL parser behind the socket's
  constructor: \<open>parses\<close> tells whether an address is a URL with a host.
\<close>

record deps =
  cipherMessage :: "jsval \<Rightarrow> jsval \<Rightarrow> jsval"
  PROTOCOL_VERSION :: jsval
  COMPRESS_PROTOCOL :: jsval
  parses :: "jsval \<Rightarrow> bool"

text \<open>The constructor's \<^verbatim>\<open>opts\<close>, as far as the file reads it, and the daemon.\<close>

record options =
  PUBLIC_KEY :: jsval
  SECRET_KEY :: jsval
  MACHINE_NAME :: jsval
  PM2_VERSION :: jsval

record interactor_daemon =
  getSystemMetadata :: jsval

text \<open>
  A listener of a socket is \<^verbatim>\<open>cb\<close> (any value the caller passed) or one of the three
  bound methods \<^verbatim>\<open>this._onClose.bind(this)\<close>, \<^verbatim>\<open>this._onError.bind(this)\<close>,
  \<^verbatim>\<open>this._onMessage.bind(this)\<close>; it is registered with \<^verbatim>\<open>once\<close> or with
  \<^verbatim>\<open>on\<close>.
\<close>

datatype handler = Callback jsval | BoundOnClose | BoundOnError | BoundOnMessage

datatype listener = Listener (event_of: string) (once_of: bool) (handler_of: handler)

text \<open>
  A \<^verbatim>\<open>ws\<close> socket as the transport sees it: what it was constructed with, its
  \<^verbatim>\<open>readyState\<close> (0 connecting, 1 open, 2 closing, 3 closed; written by the library
  only) and its listeners in the order of registration.
\<close>

record socket =
  address :: jsval
  perMessageDeflate :: bool
  headers :: "(string \<times> jsval) list"
  readyState :: int
  listeners :: "listener list"

text \<open>
  Every call the transport makes to the outside is recorded, in order, when it is made:
  the constructor of a socket and the calls on a socket (by its handle), the calls of
  \<^verbatim>\<open>emit\<close> of the EventEmitter2 base, the lines of the \<^verbatim>\<open>debug\<close> logger, the
  calls of a function value, \<^verbatim>\<open>console.error\<close>. Whether the call returned or
  threw is told by the completion of the method that made it.
\<close>

datatype action =
    WsNew nat jsval bool "(string \<times> jsval) list"
  | WsClose nat jsval jsval
  | WsSend nat jsval jsval
  | WsPing nat jsval jsval jsval
  | Emit jsval "jsval list"
  | Log string "jsval list"
  | Invoke jsval "jsval list"
  | ConsoleError jsval

text \<open>
  A subscription of the owner to the transport's own events, through the methods the
  transport inherits from EventEmitter2: \<^verbatim>\<open>on(name, f)\<close> or \<^verbatim>\<open>onAny(f)\<close>.
\<close>

datatype subscription = On string | OnAny

text \<open>
  The transport object: \<^verbatim>\<open>this.opts\<close>, \<^verbatim>\<open>this._daemon\<close>, \<^verbatim>\<open>this._ws\<close> (a handle
  into the store of sockets, \<open>None\<close> for \<^verbatim>\<open>null\<close>), \<^verbatim>\<open>this._host\<close>; the
  subscriptions held by its EventEmitter2 base; the store of all sockets constructed so
  far (a superseded socket keeps its listeners, which are bound to this transport); the
  record of actions.
\<close>

record transport =
  opts :: options
  daemon :: interactor_daemon
  ws :: "nat option"
  host :: jsval
  subscribers :: "subscription list"
  heap :: "socket list"
  out :: "action list"

text \<open>A method returns or throws; the state is kept either way.\<close>

datatype completion = Normal | Throw jsval

definition andThen ::
  "completion \<times> transport \<Rightarrow> (transport \<Rightarrow> completion \<times> transport) \<Rightarrow> completion \<times> transport" where
  "andThen r f = (case fst r of Normal \<Rightarrow> f (snd r) | Throw e \<Rightarrow> r)"

definition record_action :: "action \<Rightarrow> transport \<Rightarrow> transport" where
  "record_action a s = s\<lparr>out := out s @ [a]\<rparr>"

section \<open>The socket library and the emitter, as far as the transport calls them\<close>

text \<open>A missing argument is \<^verbatim>\<open>undefined\<close>.\<close>

definition arg :: "jsval list \<Rightarrow> nat \<Rightarrow> jsval" where
  "arg args i = (if i < length args then args ! i else JUndefined)"

definition set_readyState :: "nat \<Rightarrow> int \<Rightarrow> transport \<Rightarrow> transport" where
  "set_readyState h n s = s\<lparr>heap := (heap s)[h := (heap s ! h)\<lparr>readyState := n\<rparr>]\<rparr>"

text \<open>
  \<^verbatim>\<open>new WebSocket(url, options)\<close> parses the address and throws when it is not a
  URL with a host, which \<^verbatim>\<open>undefined\<close> and \<^verbatim>\<open>null\<close> never are; nothing is
  constructed then. Otherwise the result is a socket in state 0 with no listener, at the
  next free handle.
\<close>

definition accepts :: "deps \<Rightarrow> jsval \<Rightarrow> bool" where
  "accepts d url = (if url = JUndefined then False else if url = JNull then False else parses d url)"

definition new_WebSocket ::
  "deps \<Rightarrow> jsval \<Rightarrow> bool \<Rightarrow> (string \<times> jsval) list \<Rightarrow> transport \<Rightarrow> completion \<times> transport" where
  "new_WebSocket d url deflate hdrs s =
     (if accepts d url
      then (Normal,
            record_action (WsNew (length (heap s)) url deflate hdrs)
              (s\<lparr>heap := heap s @
                 [\<lparr>address = url, perMessageDeflate = deflate, headers = hdrs,
                   readyState = 0, listeners = []\<rparr>]\<rparr>))
      else (Throw (TypeError ''Invalid URL''),
            record_action (WsNew (length (heap s)) url deflate hdrs) s))"

text \<open>
  \<^verbatim>\<open>close(code, reason)\<close> on an open socket (the transport calls it on no other):
  the socket goes to state 2, then the arguments are checked, and a close frame is sent
  only if they pass. A code must be 1000 to 1014 without 1004, 1005 and 1006, or 3000 to
  4999; a reason must be a string of at most 123 bytes. A refused argument is thrown
  to the caller.
\<close>

fun valid_close_code :: "jsval \<Rightarrow> bool" where
  "valid_close_code (JNum n) =
     (if 1000 \<le> n \<and> n \<le> 1014 then (n \<noteq> 1004 \<and> n \<noteq> 1005 \<and> n \<noteq> 1006)
      else (3000 \<le> n \<and> n \<le> 4999))"
| "valid_close_code v = False"

fun check_close_reason :: "jsval \<Rightarrow> completion" where
  "check_close_reason JUndefined = Normal"
| "check_close_reason (JStr r) =
     (if 123 < length r then Throw (RangeError ''The message must not be greater than 123 bytes'')
      else Normal)"
| "check_close_reason v = Throw (TypeError ''The reason must be a string'')"

definition check_close :: "jsval \<Rightarrow> jsval \<Rightarrow> completion" where
  "check_close code reason =
     (if code = JUndefined then Normal
      else if valid_close_code code then check_close_reason reason
      else Throw (TypeError ''First argument must be a valid error code number''))"

definition ws_close :: "nat \<Rightarrow> jsval \<Rightarrow> jsval \<Rightarrow> transport \<Rightarrow> completion \<times> transport" where
  "ws_close h code reason s =
     (check_close code reason, record_action (WsClose h code reason) (set_readyState h 2 s))"

text \<open>
  \<^verbatim>\<open>send\<close> on an open socket is a request: the call is recorded and returns.
  \<^verbatim>\<open>ping\<close> may throw (the source catches it): \<open>res\<close> is what the library does on
  this call, \<open>None\<close> to return and \<open>Some e\<close> to throw \<open>e\<close>.
\<close>

definition ws_send :: "nat \<Rightarrow> jsval \<Rightarrow> jsval \<Rightarrow> transport \<Rightarrow> completion \<times> transport" where
  "ws_send h payload compress s = (Normal, record_action (WsSend h payload compress) s)"

definition ws_ping ::
  "jsval option \<Rightarrow> nat \<Rightarrow> jsval \<Rightarrow> jsval \<Rightarrow> jsval \<Rightarrow> transport \<Rightarrow> completion \<times> transport" where
  "ws_ping res h payload a b s =
     ((case res of None \<Rightarrow> Normal | Some e \<Rightarrow> Throw e), record_action (WsPing h payload a b) s)"

text \<open>\<^verbatim>\<open>this._ws.readyState\<close> of the socket at a handle.\<close>

definition ready :: "transport \<Rightarrow> nat \<Rightarrow> jsval" where
  "ready s h = (if h < length (heap s) then JNum (readyState (heap s ! h)) else JUndefined)"

text \<open>
  \<^verbatim>\<open>on\<close> and \<^verbatim>\<open>once\<close> of Node's EventEmitter: the listener is appended; a listener
  that is not a function is a TypeError.
\<close>

definition add_listener :: "nat \<Rightarrow> listener \<Rightarrow> transport \<Rightarrow> transport" where
  "add_listener h l s =
     s\<lparr>heap := (heap s)[h := (heap s ! h)\<lparr>listeners := listeners (heap s ! h) @ [l]\<rparr>]\<rparr>"

definition remove_listener :: "nat \<Rightarrow> listener \<Rightarrow> transport \<Rightarrow> transport" where
  "remove_listener h l s =
     s\<lparr>heap := (heap s)[h := (heap s ! h)\<lparr>listeners := remove1 l (listeners (heap s ! h))\<rparr>]\<rparr>"

fun callable :: "handler \<Rightarrow> bool" where
  "callable (Callback f) = is_function f"
| "callable b = True"

definition ws_register :: "bool \<Rightarrow> nat \<Rightarrow> string \<Rightarrow> handler \<Rightarrow> transport \<Rightarrow> completion \<times> transport" where
  "ws_register once h ev f s =
     (if callable f then (Normal, add_listener h (Listener ev once f) s)
      else (Throw (TypeError ''listener must be a function''), s))"

abbreviation ws_once :: "nat \<Rightarrow> string \<Rightarrow> handler \<Rightarrow> transport \<Rightarrow> completion \<times> transport" where
  "ws_once \<equiv> ws_register True"

abbreviation ws_on :: "nat \<Rightarrow> string \<Rightarrow> handler \<Rightarrow> transport \<Rightarrow> completion \<times> transport" where
  "ws_on \<equiv> ws_register False"

text \<open>
  \<^verbatim>\<open>this.emit(name, ...)\<close> of the EventEmitter2 base, constructed with
  \<^verbatim>\<open>wildcard: true\<close> and the delimiter \<^verbatim>\<open>:\<close>. An \<^verbatim>\<open>error\<close> event that has
  no listener (no \<^verbatim>\<open>onAny\<close> listener and none under the name \<^verbatim>\<open>error\<close>) is thrown
  to the caller of \<^verbatim>\<open>emit\<close>: the event's argument if it is an error, a new error
  otherwise. In wildcard mode a name that is neither a string nor an array is a
  TypeError. Otherwise the event goes to the listeners that match it, whose bodies are
  not part of the file, and \<^verbatim>\<open>emit\<close> returns.
\<close>

fun takes_error :: "subscription \<Rightarrow> bool" where
  "takes_error OnAny = True"
| "takes_error (On name) = (takeWhile (\<lambda>c. c \<noteq> CHR '':'') name = ''error'')"

definition error_handled :: "transport \<Rightarrow> bool" where
  "error_handled s = list_ex takes_error (subscribers s)"

definition unhandled :: "jsval \<Rightarrow> jsval" where
  "unhandled e = (if is_Error e then e else Error ''Uncaught, unspecified error event.'')"

fun event_name :: "jsval \<Rightarrow> bool" where
  "event_name (JStr name) = True"
| "event_name (JArr names) = True"
| "event_name v = False"

definition emit_outcome :: "transport \<Rightarrow> jsval \<Rightarrow> jsval list \<Rightarrow> completion" where
  "emit_outcome s name args =
     (if name = JStr ''error''
      then (if error_handled s then Normal else Throw (unhandled (arg args 0)))
      else if event_name name then Normal
      else Throw (TypeError ''type.slice is not a function''))"

definition emit :: "jsval \<Rightarrow> jsval list \<Rightarrow> transport \<Rightarrow> completion \<times> transport" where
  "emit name args s = (emit_outcome s name args, record_action (Emit name args) s)"

text \<open>\<^verbatim>\<open>on\<close> and \<^verbatim>\<open>onAny\<close> of the EventEmitter2 base, called by the owner.\<close>

definition subscribe :: "subscription \<Rightarrow> transport \<Rightarrow> transport" where
  "subscribe sub s = s\<lparr>subscribers := subscribers s @ [sub]\<rparr>"

text \<open>\<^verbatim>\<open>log(...)\<close> of the \<^verbatim>\<open>debug\<close> logger: the line is recorded.\<close>

definition log :: "string \<Rightarrow> jsval list \<Rightarrow> transport \<Rightarrow> completion \<times> transport" where
  "log msg args s = (Normal, record_action (Log msg args) s)"

section \<open>WebsocketTransport\<close>

text \<open>The constructor: \<^verbatim>\<open>this._ws = null\<close>, \<^verbatim>\<open>this._host\<close> not yet assigned.\<close>

definition WebsocketTransport :: "options \<Rightarrow> interactor_daemon \<Rightarrow> transport" where
  "WebsocketTransport ops d =
     \<lparr>opts = ops, daemon = d, ws = None, host = JUndefined, subscribers = [],
      heap = [], out = []\<rparr>"

text \<open>
  A method call \<^verbatim>\<open>this._ws.m(...)\<close>: reading \<^verbatim>\<open>m\<close> from \<^verbatim>\<open>null\<close> is a
  TypeError, thrown before the arguments are evaluated.
\<close>

definition with_socket ::
  "transport \<Rightarrow> string \<Rightarrow> (nat \<Rightarrow> completion \<times> transport) \<Rightarrow> completion \<times> transport" where
  "with_socket s m f = (case ws s of None \<Rightarrow> (Throw (null_read m ''null''), s) | Some h \<Rightarrow> f h)"

text \<open>\<^verbatim>\<open>return this._ws && this._ws.readyState === 1\<close>\<close>

definition isConnected :: "transport \<Rightarrow> jsval" where
  "isConnected s = (case ws s of None \<Rightarrow> JNull | Some h \<Rightarrow> JBool (ready s h = JNum 1))"

definition onClose :: "jsval \<Rightarrow> jsval \<Rightarrow> transport \<Rightarrow> completion \<times> transport" where
  "onClose code reason s = emit (JStr ''close'') [code, reason] s"

definition onError :: "jsval \<Rightarrow> transport \<Rightarrow> completion \<times> transport" where
  "onError err s =
     andThen
       (if truthy (isConnected s)
        then with_socket s ''close''
               (\<lambda>h. case get err ''message'' of
                      Inl e \<Rightarrow> (Throw e, s)
                    | Inr m \<Rightarrow> ws_close h (JNum 400) m s)
        else (Normal, s))
       (emit (JStr ''error'') [err])"

text \<open>
  The guard \<^verbatim>\<open>!data || !data.version || !data.payload || !data.channel\<close> reads a
  property only when \<^verbatim>\<open>data\<close> is truthy, where the read cannot throw.
\<close>

definition member :: "jsval \<Rightarrow> string \<Rightarrow> jsval" where
  "member v k = (case get v k of Inl e \<Rightarrow> JUndefined | Inr x \<Rightarrow> x)"

definition onMessage :: "jsval \<Rightarrow> jsval \<Rightarrow> transport \<Rightarrow> completion \<times> transport" where
  "onMessage data flags s =
     (if truthy (js_or (js_not data) (js_or (js_not (member data ''version''))
            (js_or (js_not (member data ''payload'')) (js_not (member data ''channel'')))))
      then log ''Received message without all necessary fields'' [] s
      else emit (member data ''channel'') [member data ''payload''] s)"

text \<open>
  \<^verbatim>\<open>connect\<close>: the metadata of the daemon is serialised and ciphered under the secret
  key, the address is kept in \<^verbatim>\<open>this._host\<close>, a new socket replaces \<^verbatim>\<open>this._ws\<close>
  (when the constructor throws, the assignment and what follows it are not reached),
  and five listeners are registered in this order. The inner function \<^verbatim>\<open>onError\<close>
  of the source is never referenced: \<^verbatim>\<open>cb\<close> itself is registered twice.
\<close>

definition connect :: "deps \<Rightarrow> jsval \<Rightarrow> jsval \<Rightarrow> transport \<Rightarrow> completion \<times> transport" where
  "connect d url cb s =
     (let data = getSystemMetadata (daemon s);
          data' = cipherMessage d (JSON_stringify data) (SECRET_KEY (opts s));
          s1 = s\<lparr>host := url\<rparr>;
          h = length (heap s1)
      in andThen
           (new_WebSocket d url False
              [(''X-KM-PUBLIC'', PUBLIC_KEY (opts s1)),
               (''X-KM-DATA'', data'),
               (''X-KM-SERVER'', MACHINE_NAME (opts s1)),
               (''X-PM2-VERSION'', PM2_VERSION (opts s1))] s1)
        (\<lambda>s2. andThen (ws_once h ''error'' (Callback cb) (s2\<lparr>ws := Some h\<rparr>))
        (\<lambda>s3. andThen (ws_once h ''open'' (Callback cb) s3)
        (\<lambda>s4. andThen (ws_on h ''close'' BoundOnClose s4)
        (\<lambda>s5. andThen (ws_on h ''error'' BoundOnError s5)
        (\<lambda>s6. ws_on h ''message'' BoundOnMessage s6))))))"

definition disconnect :: "transport \<Rightarrow> completion \<times> transport" where
  "disconnect s =
     (if truthy (isConnected s)
      then with_socket s ''close'' (\<lambda>h. ws_close h (JNum 1000) (JStr ''Disconnecting'') s)
      else (Normal, s))"

text \<open>
  \<^verbatim>\<open>reconnect(url, cb)\<close>: when the first argument is a function it is the callback
  and the address is \<^verbatim>\<open>this._host\<close>.
\<close>

definition reconnect :: "deps \<Rightarrow> jsval \<Rightarrow> jsval \<Rightarrow> transport \<Rightarrow> completion \<times> transport" where
  "reconnect d url cb s =
     (let cb' = (if is_function url then url else cb);
          url' = (if is_function url then host s else url)
      in andThen (disconnect s) (connect d url' cb'))"

text \<open>
  \<^verbatim>\<open>ping\<close>: the \<^verbatim>\<open>try\<close> block reads \<^verbatim>\<open>this._ws.ping\<close> (a TypeError when
  \<^verbatim>\<open>this._ws\<close> is \<^verbatim>\<open>null\<close>) and calls it; whatever is thrown there is emitted as
  \<^verbatim>\<open>error\<close>.
\<close>

definition ping :: "jsval option \<Rightarrow> jsval \<Rightarrow> transport \<Rightarrow> completion \<times> transport" where
  "ping res data s =
     andThen (log ''Sending ping request to remote'' [] s)
       (\<lambda>s1. let r = with_socket s1 ''ping''
                        (\<lambda>h. ws_ping res h (JSON_stringify data) (JBool True) (JBool False) s1)
             in (case fst r of
                   Normal \<Rightarrow> r
                 | Throw err \<Rightarrow> emit (JStr ''error'') [err] (snd r)))"

text \<open>\<^verbatim>\<open>send\<close>; the packet's keys in the order of the object literal.\<close>

definition send :: "deps \<Rightarrow> jsval \<Rightarrow> jsval \<Rightarrow> transport \<Rightarrow> completion \<times> transport" where
  "send d channel data s =
     (if truthy (js_or (js_not channel) (js_not data))
      then log ''Trying to send message without all necessary fields'' [] s
      else if truthy (js_not (isConnected s))
      then log ''Trying to send data while not connected'' [] s
      else andThen (log ''Sending packet over for channel %s'' [channel] s)
        (\<lambda>s1. let packet = JObj [(''version'', PROTOCOL_VERSION d),
                                  (''payload'', data),
                                  (''channel'', channel)]
              in with_socket s1 ''send''
                   (\<lambda>h. ws_send h (JSON_stringify packet)
                          (JObj [(''compress'', js_or (COMPRESS_PROTOCOL d) (JBool False))]) s1)))"

text \<open>The callback \<^verbatim>\<open>send\<close> hands to the socket, called by the library with the write's error.\<close>

definition sendCallback :: "jsval \<Rightarrow> transport \<Rightarrow> completion \<times> transport" where
  "sendCallback err s = (if truthy err then (Normal, record_action (ConsoleError err) s) else (Normal, s))"

section \<open>Socket signals\<close>

text \<open>
  The socket's own \<^verbatim>\<open>emit(ev, ...args)\<close> (Node's EventEmitter): the listeners of the
  event at the time of the call run in the order of registration, each with the
  arguments of the event; a \<^verbatim>\<open>once\<close> listener is removed just before it runs; a
  listener that throws ends the delivery.
\<close>

fun run_handler :: "handler \<Rightarrow> jsval list \<Rightarrow> transport \<Rightarrow> completion \<times> transport" where
  "run_handler (Callback f) args s = (Normal, record_action (Invoke f args) s)"
| "run_handler BoundOnClose args s = onClose (arg args 0) (arg args 1) s"
| "run_handler BoundOnError args s = onError (arg args 0) s"
| "run_handler BoundOnMessage args s = onMessage (arg args 0) (arg args 1) s"

fun deliver :: "nat \<Rightarrow> listener list \<Rightarrow> jsval list \<Rightarrow> transport \<Rightarrow> completion \<times> transport" where
  "deliver h [] args s = (Normal, s)"
| "deliver h (l # ls) args s =
     andThen
       (run_handler (handler_of l) args (if once_of l then remove_listener h l s else s))
       (deliver h ls args)"

definition listening :: "string \<Rightarrow> listener \<Rightarrow> bool" where
  "listening ev l = (event_of l = ev)"

definition ws_emit :: "nat \<Rightarrow> string \<Rightarrow> jsval list \<Rightarrow> transport \<Rightarrow> completion \<times> transport" where
  "ws_emit h ev args s =
     (if h < length (heap s)
      then deliver h (filter (listening ev) (listeners (heap s ! h))) args s
      else (Normal, s))"

text \<open>
  What can happen to a transport: a call of one of its public methods by the owner
  (for \<^verbatim>\<open>ping\<close>, with what the library's \<^verbatim>\<open>ping\<close> does), a subscription of
  the owner, or the library writing a socket's \<^verbatim>\<open>readyState\<close>, emitting an event on
  a socket, or completing a write.
  An exception goes to whoever called; the transport's state stays as the call left it.
\<close>

datatype event =
    CallConnect jsval jsval
  | CallDisconnect
  | CallReconnect jsval jsval
  | CallSend jsval jsval
  | CallPing jsval "jsval option"
  | CallOn subscription
  | SocketState nat int
  | SocketEmit nat string "jsval list"
  | SendDone jsval

fun step :: "deps \<Rightarrow> event \<Rightarrow> transport \<Rightarrow> completion \<times> transport" where
  "step d (CallConnect url cb) s = connect d url cb s"
| "step d CallDisconnect s = disconnect s"
| "step d (CallReconnect url cb) s = reconnect d url cb s"
| "step d (CallSend channel data) s = send d channel data s"
| "step d (CallPing data res) s = ping res data s"
| "step d (CallOn sub) s = (Normal, subscribe sub s)"
| "step d (SocketState h n) s = (Normal, set_readyState h n s)"
| "step d (SocketEmit h ev args) s = ws_emit h ev args s"
| "step d (SendDone err) s = sendCallback err s"

fun run :: "deps \<Rightarrow> event list \<Rightarrow> transport \<Rightarrow> transport" where
  "run d [] s = s"
| "run d (e # es) s = run d es (snd (step d e s))"

section \<open>A concrete transport\<close>

text \<open>
  Values for the parameters, for the statements that are evaluated: a cipher that keeps
  its two arguments apart, protocol version 1 without compression, a parser that takes
  the \<^verbatim>\<open>ws://\<close> addresses, a transport just constructed (\<open>fresh\<close>), one whose first
  connection has opened (\<open>live\<close>), and the latter with a subscriber for \<^verbatim>\<open>error\<close>
  (\<open>watched\<close>).
\<close>

definition demo_cipher :: "jsval \<Rightarrow> jsval \<Rightarrow> jsval" where
  "demo_cipher msg key = JArr [JStr ''ciphered'', msg, key]"

fun demo_parses :: "jsval \<Rightarrow> bool" where
  "demo_parses (JStr a) = (take 5 a = ''ws://'' \<and> 5 < length a)"
| "demo_parses v = False"

definition demo_deps :: deps where
  "demo_deps = \<lparr>cipherMessage = demo_cipher, PROTOCOL_VERSION = JNum 1,
                 COMPRESS_PROTOCOL = JBool False, parses = demo_parses\<rparr>"

definition demo_opts :: options where
  "demo_opts = \<lparr>PUBLIC_KEY = JStr ''pub'', SECRET_KEY = JStr ''sec'',
                 MACHINE_NAME = JStr ''box'', PM2_VERSION = JStr ''2.4.0''\<rparr>"

definition demo_daemon :: interactor_daemon where
  "demo_daemon = \<lparr>getSystemMetadata = JObj [(''MACHINE_NAME'', JStr ''box'')]\<rparr>"

definition fresh :: transport where
  "fresh = WebsocketTransport demo_opts demo_daemon"

definition live :: transport where
  "live = run demo_deps
     [CallConnect (JStr ''ws://host/x'') (JFun 0), SocketState 0 1, SocketEmit 0 ''open'' []] fresh"

definition watched :: transport where
  "watched = subscribe (On ''error'') live"

text \<open>The calls of one function value among the recorded actions.\<close>

fun is_invoke :: "jsval \<Rightarrow> action \<Rightarrow> bool" where
  "is_invoke f (Invoke g args) = (g = f)"
| "is_invoke f a = False"

section \<open>Inbound messages\<close>

text \<open>
  What \<^verbatim>\<open>_onMessage\<close> does with a value: it is dropped with a diagnostic line
  unless it is truthy with a truthy \<^verbatim>\<open>version\<close>, \<^verbatim>\<open>payload\<close> and
  \<^verbatim>\<open>channel\<close>, and then it is handed to \<^verbatim>\<open>emit\<close> under the channel's name.
\<close>

lemma onMessage_guard:
  "onMessage data flags s =
     (if truthy data \<and> truthy (member data ''version'') \<and> truthy (member data ''payload'')
          \<and> truthy (member data ''channel'')
      then emit (member data ''channel'') [member data ''payload''] s
      else log ''Received message without all necessary fields'' [] s)"
  by (simp add: onMessage_def js_or_def js_not_def)

text \<open>An envelope that arrived as an object would be dispatched once, under its channel.\<close>

lemma onMessage_metrics:
  "onMessage (JObj [(''version'', JNum 1), (''channel'', JStr ''metrics''),
                    (''payload'', JObj [(''cpu'', JNum 10)])]) JUndefined live
   = (Normal, live\<lparr>out := out live @ [Emit (JStr ''metrics'') [JObj [(''cpu'', JNum 10)]]]\<rparr>)"
  by (simp add: onMessage_def js_or_def js_not_def emit_def emit_outcome_def record_action_def
      member_def)

text \<open>
  The socket hands \<^verbatim>\<open>_onMessage\<close> the text of the frame, and nothing in the file
  parses it: a string has none of the three properties, so every text is dropped.
\<close>

lemma onMessage_text:
  "onMessage (JStr frame) flags s =
     (Normal, s\<lparr>out := out s @ [Log ''Received message without all necessary fields'' []]\<rparr>)"
  by (simp add: onMessage_def js_or_def js_not_def member_def log_def record_action_def)

text \<open>
  C1. The claim is that a message with the three fields \<^verbatim>\<open>version\<close>,
  \<^verbatim>\<open>channel\<close> and \<^verbatim>\<open>payload\<close> is dispatched as one event named by its channel.
  The code drops it: when the socket delivers the frame whose text is the envelope
  \<^verbatim>\<open>{version: 1, payload: {cpu: 10}, channel: "metrics"}\<close>, as \<^verbatim>\<open>send\<close> writes it,
  to a transport that has a subscriber for \<^verbatim>\<open>metrics\<close>, the only thing that
  happens is the diagnostic line; no event is emitted.
\<close>

theorem onMessage_drops_envelope:
  "out (run demo_deps
     [SocketEmit 0 ''message''
        [JSON_stringify (JObj [(''version'', JNum 1), (''payload'', JObj [(''cpu'', JNum 10)]),
                               (''channel'', JStr ''metrics'')])]]
     (subscribe (On ''metrics'') live))
   = out live @ [Log ''Received message without all necessary fields'' []]"
  by code_simp

section \<open>Outbound messages\<close>

text \<open>
  C3. On a connected transport, with a truthy channel and truthy data, \<^verbatim>\<open>send\<close>
  makes exactly one socket write, on the current socket. Its content is the JSON
  serialisation of the envelope whose fields are \<^verbatim>\<open>version\<close> (the protocol version
  constant), \<^verbatim>\<open>payload\<close> (the data) and \<^verbatim>\<open>channel\<close> (the channel), and no other
  field; the keys are serialised in the order of the source's object literal.
\<close>

theorem send_writes_envelope:
  assumes "truthy channel" and "truthy data" and "truthy (isConnected s)"
  shows "\<exists>h. ws s = Some h \<and> send d channel data s =
     (Normal, s\<lparr>out := out s @
        [Log ''Sending packet over for channel %s'' [channel],
         WsSend h
           (JSON_stringify
              (JObj [(''version'', PROTOCOL_VERSION d), (''payload'', data), (''channel'', channel)]))
           (JObj [(''compress'', js_or (COMPRESS_PROTOCOL d) (JBool False))])]\<rparr>)"
  using assms
  by (cases "ws s")
    (simp_all add: send_def isConnected_def js_or_def js_not_def log_def record_action_def
      andThen_def ws_send_def with_socket_def)

text \<open>
  The spec's scenario, \<^verbatim>\<open>send("metrics", {cpu: 10})\<close> while connected: one frame,
  with the payload before the channel.
\<close>

theorem send_writes_envelope_witness:
  \<open>truthy (JStr ''metrics'') \<and> truthy (JObj [(''cpu'', JNum 10)]) \<and> truthy (isConnected live)
   \<and> send demo_deps (JStr ''metrics'') (JObj [(''cpu'', JNum 10)]) live =
     (Normal, live\<lparr>out := out live @
        [Log ''Sending packet over for channel %s'' [JStr ''metrics''],
         WsSend 0 (JStr ''{"version":1,"payload":{"cpu":10},"channel":"metrics"}'')
           (JObj [(''compress'', JBool False)])]\<rparr>)\<close>
proof -
  have c: "truthy (isConnected live)"
    by code_simp
  have h: "ws live = Some 0"
    by code_simp
  have j: \<open>JSON_stringify (JObj [(''version'', PROTOCOL_VERSION demo_deps),
              (''payload'', JObj [(''cpu'', JNum 10)]), (''channel'', JStr ''metrics'')])
           = JStr ''{"version":1,"payload":{"cpu":10},"channel":"metrics"}''\<close>
    by code_simp
  have k: "js_or (COMPRESS_PROTOCOL demo_deps) (JBool False) = JBool False"
    by code_simp
  from send_writes_envelope [of "JStr ''metrics''" "JObj [(''cpu'', JNum 10)]" live demo_deps] c
  show ?thesis
    by (simp add: h j k)
qed

text \<open>
  C5. When the channel or the data is falsy (missing or empty), or the transport is not
  connected, \<^verbatim>\<open>send\<close> returns normally and changes nothing but the diagnostic log:
  one line is logged, no socket call is made, the fields of the transport and the
  sockets are as before.
\<close>

theorem send_noop:
  assumes "\<not> truthy channel \<or> \<not> truthy data \<or> \<not> truthy (isConnected s)"
  shows "\<exists>msg. send d channel data s = (Normal, s\<lparr>out := out s @ [Log msg []]\<rparr>)"
  using assms
  by (auto simp add: send_def js_or_def js_not_def log_def record_action_def)

theorem send_noop_witness:
  "\<not> truthy (isConnected fresh)
   \<and> (\<exists>msg. send demo_deps (JStr ''metrics'') (JObj [(''cpu'', JNum 10)]) fresh =
         (Normal, fresh\<lparr>out := out fresh @ [Log msg []]\<rparr>))
   \<and> \<not> truthy JUndefined
   \<and> (\<exists>msg. send demo_deps (JStr ''metrics'') JUndefined live =
         (Normal, live\<lparr>out := out live @ [Log msg []]\<rparr>))"
proof -
  have c: "\<not> truthy (isConnected fresh)"
    by code_simp
  from c send_noop [of "JStr ''metrics''" "JObj [(''cpu'', JNum 10)]" fresh demo_deps]
    send_noop [of "JStr ''metrics''" JUndefined live demo_deps]
  show ?thesis
    by simp
qed

text \<open>
  C10. The checks are truthiness checks. A \<^verbatim>\<open>send\<close> whose channel or data is
  falsy (such as 0, false, the empty string or null) writes nothing, and behaves as a
  \<^verbatim>\<open>send\<close> with both arguments missing. An inbound message that has the three
  keys, one of them with a falsy value, is not dispatched, and is treated as a message
  with no field at all.
\<close>

theorem falsy_is_missing:
  "(\<not> truthy channel \<or> \<not> truthy data \<longrightarrow>
      send d channel data s =
        (Normal, s\<lparr>out := out s @ [Log ''Trying to send message without all necessary fields'' []]\<rparr>)
      \<and> send d channel data s = send d JUndefined JUndefined s)
   \<and> (has_key m ''version'' \<and> has_key m ''channel'' \<and> has_key m ''payload''
        \<and> (\<not> truthy (member m ''version'') \<or> \<not> truthy (member m ''channel'')
             \<or> \<not> truthy (member m ''payload'')) \<longrightarrow>
      onMessage m flags s =
        (Normal, s\<lparr>out := out s @ [Log ''Received message without all necessary fields'' []]\<rparr>)
      \<and> onMessage m flags s = onMessage (JObj []) flags s)"
  by (auto simp add: send_def onMessage_def js_or_def js_not_def log_def record_action_def member_def)

theorem falsy_is_missing_witness:
  "\<not> truthy (JNum 0)
   \<and> send demo_deps (JStr ''metrics'') (JNum 0) live =
       (Normal, live\<lparr>out := out live @ [Log ''Trying to send message without all necessary fields'' []]\<rparr>)
   \<and> has_key (JObj [(''version'', JNum 1), (''channel'', JStr ''x''), (''payload'', JBool False)]) ''payload''
   \<and> \<not> truthy (member (JObj [(''version'', JNum 1), (''channel'', JStr ''x''), (''payload'', JBool False)]) ''payload'')
   \<and> onMessage (JObj [(''version'', JNum 1), (''channel'', JStr ''x''), (''payload'', JBool False)]) JUndefined live =
       (Normal, live\<lparr>out := out live @ [Log ''Received message without all necessary fields'' []]\<rparr>)"
  using falsy_is_missing [of "JStr ''metrics''" "JNum 0" demo_deps live
      "JObj [(''version'', JNum 1), (''channel'', JStr ''x''), (''payload'', JBool False)]" JUndefined]
  by (simp add: member_def)

section \<open>Errors\<close>

text \<open>
  \<^verbatim>\<open>_onError\<close> on a connected transport: \<^verbatim>\<open>close(400, err.message)\<close> is called
  on the current socket, the socket refuses the code 400 and throws, and the handler
  ends there, before \<^verbatim>\<open>emit\<close>.
\<close>

lemma onError_connected:
  assumes "truthy (isConnected s)" and "get err ''message'' = Inr m"
  shows "\<exists>h. ws s = Some h \<and> onError err s =
     (Throw (TypeError ''First argument must be a valid error code number''),
      (set_readyState h 2 s)\<lparr>out := out s @ [WsClose h (JNum 400) m]\<rparr>)"
  using assms
  by (cases "ws s")
    (simp_all add: onError_def isConnected_def andThen_def ws_close_def check_close_def
      with_socket_def record_action_def set_readyState_def)

text \<open>
  \<^verbatim>\<open>_onError\<close> on a transport that is not connected: no close, and the error goes
  to \<^verbatim>\<open>emit\<close>, which throws it back when nobody listens for \<^verbatim>\<open>error\<close>.
\<close>

lemma onError_not_connected:
  assumes "\<not> truthy (isConnected s)"
  shows "onError err s =
     ((if error_handled s then Normal else Throw (unhandled err)),
      s\<lparr>out := out s @ [Emit (JStr ''error'') [err]]\<rparr>)"
  using assms
  by (simp add: onError_def andThen_def emit_def emit_outcome_def record_action_def arg_def
      error_handled_def)

text \<open>
  C4. The claim is that an error signal on a connected transport closes the socket with
  code 400 and the error's message and afterwards emits \<^verbatim>\<open>error\<close>. On the
  connected transport with a subscriber for \<^verbatim>\<open>error\<close>, the handler called with
  the error ECONNRESET calls \<^verbatim>\<open>close(400, "ECONNRESET")\<close>, which the socket
  refuses with a TypeError; the handler throws it and \<^verbatim>\<open>error\<close> is never emitted.
\<close>

theorem onError_close_refused:
  "fst (onError (Error ''ECONNRESET'') watched)
     = Throw (TypeError ''First argument must be a valid error code number'')
   \<and> out (snd (onError (Error ''ECONNRESET'') watched))
     = out watched @ [WsClose 0 (JNum 400) (JStr ''ECONNRESET'')]"
  by code_simp

text \<open>
  C9 (as amended). Whatever fails inside the \<^verbatim>\<open>try\<close> block of \<^verbatim>\<open>ping\<close> (the read
  of \<^verbatim>\<open>ping\<close> from a null socket handle, or the socket's \<^verbatim>\<open>ping\<close> throwing) is
  caught and handed to \<^verbatim>\<open>emit\<close> as an \<^verbatim>\<open>error\<close> event. \<^verbatim>\<open>ping\<close> returns
  normally when nothing failed or when the transport has a listener for
  \<^verbatim>\<open>error\<close>; when it has none, the emitter throws the error back and \<^verbatim>\<open>ping\<close>
  throws it to its caller.
\<close>

theorem ping_failure_emitted:
  "ping res data s =
     (case ws s of
        None \<Rightarrow>
          ((if error_handled s then Normal else Throw (null_read ''ping'' ''null'')),
           s\<lparr>out := out s @
              [Log ''Sending ping request to remote'' [],
               Emit (JStr ''error'') [null_read ''ping'' ''null'']]\<rparr>)
      | Some h \<Rightarrow>
          (case res of
             None \<Rightarrow>
               (Normal,
                s\<lparr>out := out s @
                   [Log ''Sending ping request to remote'' [],
                    WsPing h (JSON_stringify data) (JBool True) (JBool False)]\<rparr>)
           | Some e \<Rightarrow>
               ((if error_handled s then Normal else Throw (unhandled e)),
                s\<lparr>out := out s @
                   [Log ''Sending ping request to remote'' [],
                    WsPing h (JSON_stringify data) (JBool True) (JBool False),
                    Emit (JStr ''error'') [e]]\<rparr>)))"
  by (simp add: ping_def log_def andThen_def record_action_def ws_ping_def emit_def
      emit_outcome_def with_socket_def arg_def unhandled_def null_read_def TypeError_def
      error_handled_def split: option.splits)

text \<open>
  On a transport as constructed, with no socket and no subscriber, \<^verbatim>\<open>ping\<close>
  throws the TypeError of the null read to its caller.
\<close>

theorem ping_throws_counterexample:
  "ping None (JNum 1) fresh =
     (Throw (null_read ''ping'' ''null''),
      fresh\<lparr>out := [Log ''Sending ping request to remote'' [],
                     Emit (JStr ''error'') [null_read ''ping'' ''null'']]\<rparr>)"
  by code_simp

text \<open>With a subscriber for \<^verbatim>\<open>error\<close> the same call returns.\<close>

lemma ping_returns_when_watched:
  "fst (ping None (JNum 1) (subscribe (On ''error'') fresh)) = Normal
   \<and> fst (ping (Some (Error ''not opened'')) (JNum 1) watched) = Normal"
  by code_simp

section \<open>Connecting\<close>

text \<open>
  C7 (as amended). Every call of \<^verbatim>\<open>connect\<close> calls the socket's constructor
  once, with the given address, with compression off and exactly four headers: \<^verbatim>\<open>X-KM-PUBLIC\<close> (the
  public key), \<^verbatim>\<open>X-KM-DATA\<close> (the cipher of the JSON-serialised system metadata under
  the secret key), \<^verbatim>\<open>X-KM-SERVER\<close> (the machine name) and \<^verbatim>\<open>X-PM2-VERSION\<close> (the
  client version). It makes no other call and emits nothing.
\<close>

theorem connect_headers:
  "out (snd (connect d url cb s)) = out s @
     [WsNew (length (heap s)) url False
        [(''X-KM-PUBLIC'', PUBLIC_KEY (opts s)),
         (''X-KM-DATA'',
            cipherMessage d (JSON_stringify (getSystemMetadata (daemon s))) (SECRET_KEY (opts s))),
         (''X-KM-SERVER'', MACHINE_NAME (opts s)),
         (''X-PM2-VERSION'', PM2_VERSION (opts s))]]"
  by (simp add: connect_def Let_def new_WebSocket_def record_action_def andThen_def
      ws_register_def add_listener_def)

text \<open>None of the four names of the claim is a header of the socket that \<^verbatim>\<open>connect\<close> opens.\<close>

theorem connect_headers_counterexample:
  "map fst (headers (heap (snd (connect demo_deps (JStr ''ws://host/x'') (JFun 0) fresh)) ! 0))
     = [''X-KM-PUBLIC'', ''X-KM-DATA'', ''X-KM-SERVER'', ''X-PM2-VERSION'']
   \<and> map_of (headers (heap (snd (connect demo_deps (JStr ''ws://host/x'') (JFun 0) fresh)) ! 0))
        ''X-PUBLIC-KEY'' = None
   \<and> map_of (headers (heap (snd (connect demo_deps (JStr ''ws://host/x'') (JFun 0) fresh)) ! 0))
        ''X-AUTH-DATA'' = None
   \<and> map_of (headers (heap (snd (connect demo_deps (JStr ''ws://host/x'') (JFun 0) fresh)) ! 0))
        ''X-SERVER-NAME'' = None
   \<and> map_of (headers (heap (snd (connect demo_deps (JStr ''ws://host/x'') (JFun 0) fresh)) ! 0))
        ''X-CLIENT-VERSION'' = None"
  by code_simp


text \<open>
  The callback of \<^verbatim>\<open>connect\<close> is registered by two independent \<^verbatim>\<open>once\<close>
  calls. From any state, with any address the constructor accepts and any function as
  the callback: when the new socket signals \<^verbatim>\<open>open\<close> and later \<^verbatim>\<open>error\<close>, or
  \<^verbatim>\<open>error\<close> and later \<^verbatim>\<open>open\<close>, the callback is called by both.
\<close>

lemma connect_callback_open_then_error:
  assumes "accepts d url"
  shows "filter (is_invoke (JFun f))
     (drop (length (out s))
        (out (run d [SocketEmit (length (heap s)) ''open'' [],
                     SocketEmit (length (heap s)) ''error'' [e]]
               (snd (connect d url (JFun f) s)))))
   = [Invoke (JFun f) [], Invoke (JFun f) [e]]"
  using assms
  by (simp add: connect_def Let_def new_WebSocket_def record_action_def andThen_def
      ws_register_def add_listener_def ws_emit_def listening_def remove_listener_def
      onError_def isConnected_def ready_def emit_def with_socket_def nth_append
      split: sum.splits completion.splits)

lemma connect_callback_error_then_open:
  assumes "accepts d url"
  shows "filter (is_invoke (JFun f))
     (drop (length (out s))
        (out (run d [SocketEmit (length (heap s)) ''error'' [e],
                     SocketEmit (length (heap s)) ''open'' []]
               (snd (connect d url (JFun f) s)))))
   = [Invoke (JFun f) [e], Invoke (JFun f) []]"
  using assms
  by (simp add: connect_def Let_def new_WebSocket_def record_action_def andThen_def
      ws_register_def add_listener_def ws_emit_def listening_def remove_listener_def
      onError_def isConnected_def ready_def emit_def with_socket_def nth_append
      split: sum.splits completion.splits)

text \<open>
  C2. The claim is that the callback of \<^verbatim>\<open>connect\<close> is called exactly once, by the
  first \<^verbatim>\<open>open\<close> or the first \<^verbatim>\<open>error\<close>. The code calls it twice on the trace
  \<^verbatim>\<open>connect("ws://host/x", cb)\<close>, \<^verbatim>\<open>open\<close>, \<^verbatim>\<open>error(ECONNRESET)\<close>: once
  with no argument and once with the error.
\<close>

theorem connect_callback_twice:
  "filter (is_invoke (JFun 0))
     (out (run demo_deps
        [CallConnect (JStr ''ws://host/x'') (JFun 0), SocketState 0 1, SocketEmit 0 ''open'' [],
         SocketEmit 0 ''error'' [Error ''ECONNRESET'']] fresh))
   = [Invoke (JFun 0) [], Invoke (JFun 0) [Error ''ECONNRESET'']]"
  by code_simp

section \<open>Reconnecting\<close>

lemma connect_state:
  "ws (snd (connect d url cb s)) = (if accepts d url then Some (length (heap s)) else ws s)"
  "host (snd (connect d url cb s)) = url"
  "fst (connect d url (JFun f) s) = (if accepts d url then Normal else Throw (TypeError ''Invalid URL''))"
  by (simp_all add: connect_def Let_def new_WebSocket_def record_action_def andThen_def
      ws_register_def add_listener_def)

lemma connect_refused:
  assumes "\<not> accepts d url"
  shows "connect d url cb s =
     (Throw (TypeError ''Invalid URL''),
      s\<lparr>host := url,
        out := out s @
          [WsNew (length (heap s)) url False
             [(''X-KM-PUBLIC'', PUBLIC_KEY (opts s)),
              (''X-KM-DATA'',
                 cipherMessage d (JSON_stringify (getSystemMetadata (daemon s))) (SECRET_KEY (opts s))),
              (''X-KM-SERVER'', MACHINE_NAME (opts s)),
              (''X-PM2-VERSION'', PM2_VERSION (opts s))]]\<rparr>)"
  using assms
  by (simp add: connect_def Let_def new_WebSocket_def record_action_def andThen_def)

lemma disconnect_frame:
  "fst (disconnect s) = Normal"
  "ws (snd (disconnect s)) = ws s"
  "host (snd (disconnect s)) = host s"
  "length (heap (snd (disconnect s))) = length (heap s)"
  by (simp_all add: disconnect_def isConnected_def ws_close_def check_close_def record_action_def
      with_socket_def set_readyState_def split: option.splits)

lemma disconnect_out:
  "out (snd (disconnect s)) =
     out s @ (case ws s of
                None \<Rightarrow> []
              | Some h \<Rightarrow> if ready s h = JNum 1
                         then [WsClose h (JNum 1000) (JStr ''Disconnecting'')] else [])"
  by (simp add: disconnect_def isConnected_def ws_close_def record_action_def with_socket_def
      set_readyState_def split: option.splits)

text \<open>
  C6 (as amended). \<^verbatim>\<open>reconnect\<close> with the address omitted (the callback as its
  first argument) makes no check of its own and raises no InvalidState error: after
  \<^verbatim>\<open>disconnect\<close> (a close with code 1000 when connected) it calls the socket's
  constructor with the stored address \<^verbatim>\<open>this._host\<close>, whatever that is, and keeps
  that address. It returns normally, with the new socket as the current one, when the
  constructor accepts the address; when it does not, as for \<^verbatim>\<open>undefined\<close>, the
  constructor's TypeError is thrown to the caller and the socket handle is left as it
  was. The stored address is the one given to the last \<^verbatim>\<open>connect\<close>.
\<close>

theorem reconnect_omitted_address:
  "fst (reconnect d (JFun f) cb s)
     = (if accepts d (host s) then Normal else Throw (TypeError ''Invalid URL''))
   \<and> ws (snd (reconnect d (JFun f) cb s))
     = (if accepts d (host s) then Some (length (heap s)) else ws s)
   \<and> host (snd (reconnect d (JFun f) cb s)) = host s
   \<and> (\<exists>hdrs. out (snd (reconnect d (JFun f) cb s)) =
         out (snd (disconnect s)) @ [WsNew (length (heap s)) (host s) False hdrs])
   \<and> host (snd (connect d url cb0 s0)) = url"
proof -
  have r: "reconnect d (JFun f) cb s = connect d (host s) (JFun f) (snd (disconnect s))"
    by (simp add: reconnect_def andThen_def disconnect_frame)
  have "\<exists>hdrs. out (snd (connect d (host s) (JFun f) (snd (disconnect s)))) =
          out (snd (disconnect s)) @ [WsNew (length (heap s)) (host s) False hdrs]"
    by (simp add: connect_def Let_def new_WebSocket_def record_action_def andThen_def
        ws_register_def add_listener_def disconnect_frame)
  then show ?thesis
    by (simp add: r connect_state disconnect_frame)
qed

text \<open>
  On a transport that never connected there is no prior address. \<^verbatim>\<open>reconnect(cb)\<close>
  does fail, but with the TypeError the socket's constructor throws when it is called
  with \<^verbatim>\<open>undefined\<close>: the socket operation has been attempted (the call is the
  one recorded), no socket exists and the handle is still nil.
\<close>

theorem reconnect_no_address_counterexample:
  "host fresh = JUndefined
   \<and> fst (reconnect demo_deps (JFun 0) JUndefined fresh) = Throw (TypeError ''Invalid URL'')
   \<and> ws (snd (reconnect demo_deps (JFun 0) JUndefined fresh)) = None
   \<and> heap (snd (reconnect demo_deps (JFun 0) JUndefined fresh)) = []
   \<and> out (snd (reconnect demo_deps (JFun 0) JUndefined fresh)) =
       [WsNew 0 JUndefined False
          [(''X-KM-PUBLIC'', JStr ''pub''),
           (''X-KM-DATA'',
              JArr [JStr ''ciphered'', JSON_stringify (JObj [(''MACHINE_NAME'', JStr ''box'')]),
                    JStr ''sec'']),
           (''X-KM-SERVER'', JStr ''box''),
           (''X-PM2-VERSION'', JStr ''2.4.0'')]]"
  by code_simp

text \<open>With a prior address, \<^verbatim>\<open>reconnect(cb)\<close> closes and connects to it again.\<close>

lemma reconnect_live:
  "fst (reconnect demo_deps (JFun 1) JUndefined live) = Normal
   \<and> ws (snd (reconnect demo_deps (JFun 1) JUndefined live)) = Some 1
   \<and> address (heap (snd (reconnect demo_deps (JFun 1) JUndefined live)) ! 1) = JStr ''ws://host/x''
   \<and> drop (length (out live)) (out (snd (reconnect demo_deps (JFun 1) JUndefined live))) =
       [WsClose 0 (JNum 1000) (JStr ''Disconnecting''),
        WsNew 1 (JStr ''ws://host/x'') False
          [(''X-KM-PUBLIC'', JStr ''pub''),
           (''X-KM-DATA'',
              JArr [JStr ''ciphered'', JSON_stringify (JObj [(''MACHINE_NAME'', JStr ''box'')]),
                    JStr ''sec'']),
           (''X-KM-SERVER'', JStr ''box''),
           (''X-PM2-VERSION'', JStr ''2.4.0'')]]"
  by code_simp

section \<open>The socket handle\<close>

lemma ws_andThen:
  assumes "\<And>t. ws (snd (f t)) = ws t"
  shows "ws (snd (andThen r f)) = ws (snd r)"
  using assms by (cases "fst r") (simp_all add: andThen_def)

lemma ws_emit_frame: "ws (snd (emit n args s)) = ws s"
  by (simp add: emit_def record_action_def)

lemma ws_log_frame: "ws (snd (log m args s)) = ws s"
  by (simp add: log_def record_action_def)

lemma ws_onClose: "ws (snd (onClose c r s)) = ws s"
  by (simp add: onClose_def ws_emit_frame)

lemma ws_onError: "ws (snd (onError e s)) = ws s"
  by (simp add: onError_def ws_andThen ws_emit_frame ws_close_def record_action_def
      with_socket_def set_readyState_def split: sum.splits option.splits)

lemma ws_onMessage: "ws (snd (onMessage m fl s)) = ws s"
  by (simp add: onMessage_def ws_emit_frame ws_log_frame)

lemma ws_run_handler: "ws (snd (run_handler f args s)) = ws s"
  by (cases f) (simp_all add: ws_onClose ws_onError ws_onMessage record_action_def)

lemma ws_remove_listener: "ws (remove_listener h l s) = ws s"
  by (simp add: remove_listener_def)

lemma ws_deliver: "ws (snd (deliver h ls args s)) = ws s"
proof (induction ls arbitrary: s)
  case Nil
  show ?case by simp
next
  case (Cons l ls)
  have "ws (snd (deliver h (l # ls) args s)) =
        ws (snd (run_handler (handler_of l) args (if once_of l then remove_listener h l s else s)))"
    by (simp add: ws_andThen Cons.IH)
  also have "\<dots> = ws s"
    by (simp add: ws_run_handler ws_remove_listener)
  finally show ?case .
qed

lemma ws_ws_emit: "ws (snd (ws_emit h ev args s)) = ws s"
  by (simp add: ws_emit_def ws_deliver)

lemma ws_send_frame: "ws (snd (send d c x s)) = ws s"
  by (simp add: send_def andThen_def log_def ws_send_def record_action_def with_socket_def
      split: option.splits)

lemma ws_ping_frame: "ws (snd (ping res x s)) = ws s"
  by (simp add: ping_def log_def andThen_def record_action_def ws_ping_def emit_def
      with_socket_def split: option.splits completion.splits)

lemma ws_reconnect:
  "ws (snd (reconnect d url cb s)) =
     (if accepts d (if is_function url then host s else url) then Some (length (heap s)) else ws s)"
  by (simp add: reconnect_def andThen_def disconnect_frame connect_state)

lemma ws_step: "ws s \<noteq> None \<Longrightarrow> ws (snd (step d e s)) \<noteq> None"
  by (cases e)
    (simp_all add: connect_state disconnect_frame ws_reconnect ws_send_frame ws_ping_frame
      ws_ws_emit set_readyState_def sendCallback_def record_action_def subscribe_def)

lemma ws_run: "ws s \<noteq> None \<Longrightarrow> ws (run d es s) \<noteq> None"
proof (induction es arbitrary: s)
  case Nil
  then show ?case by simp
next
  case (Cons e es)
  from Cons.prems have "ws (snd (step d e s)) \<noteq> None"
    by (rule ws_step)
  then have "ws (run d es (snd (step d e s))) \<noteq> None"
    by (rule Cons.IH)
  then show ?case by simp
qed

text \<open>
  C8 (as amended). The socket handle is nil until the first \<^verbatim>\<open>connect\<close> or
  \<^verbatim>\<open>reconnect\<close> whose address the socket's constructor accepts. Such a call
  installs the handle of the new socket; a call whose constructor throws,
  \<^verbatim>\<open>disconnect\<close> and the close and error handlers leave the handle as it is; and
  after any sequence of calls and socket signals a handle that was set is still set.
  Whether the transport is connected is told by the socket's \<^verbatim>\<open>readyState\<close>.
\<close>

theorem socket_handle_never_reset:
  "ws (WebsocketTransport ops dm) = None
   \<and> (ws s \<noteq> None \<longrightarrow> ws (run d es s) \<noteq> None)
   \<and> ws (snd (connect d url cb s)) = (if accepts d url then Some (length (heap s)) else ws s)
   \<and> ws (snd (reconnect d url cb s)) =
       (if accepts d (if is_function url then host s else url) then Some (length (heap s))
        else ws s)
   \<and> ws (snd (disconnect s)) = ws s
   \<and> ws (snd (onClose code reason s)) = ws s
   \<and> ws (snd (onError err s)) = ws s"
  by (simp add: WebsocketTransport_def ws_run connect_state ws_reconnect disconnect_frame
      ws_onClose ws_onError)

theorem socket_handle_never_reset_witness:
  "ws live \<noteq> None
   \<and> ws (run demo_deps [CallDisconnect, SocketState 0 3,
            SocketEmit 0 ''close'' [JNum 1000, JStr ''Disconnecting'']] live) \<noteq> None"
proof -
  have "ws live \<noteq> None"
    by code_simp
  with socket_handle_never_reset [of demo_opts demo_daemon live demo_deps
      "[CallDisconnect, SocketState 0 3, SocketEmit 0 ''close'' [JNum 1000, JStr ''Disconnecting'']]"]
  show ?thesis
    by simp
qed

text \<open>
  After a disconnect and the socket's close signal, and after an error signal and the
  abnormal closure that follows it, the transport is disconnected and its handle is
  not nil.
\<close>

theorem socket_handle_counterexample:
  "isConnected (run demo_deps [CallDisconnect, SocketState 0 3,
        SocketEmit 0 ''close'' [JNum 1000, JStr ''Disconnecting'']] live) = JBool False
   \<and> ws (run demo_deps [CallDisconnect, SocketState 0 3,
        SocketEmit 0 ''close'' [JNum 1000, JStr ''Disconnecting'']] live) = Some 0
   \<and> isConnected (run demo_deps [SocketEmit 0 ''error'' [Error ''ECONNRESET''], SocketState 0 3,
        SocketEmit 0 ''close'' [JNum 1006, JStr []]] live) = JBool False
   \<and> ws (run demo_deps [SocketEmit 0 ''error'' [Error ''ECONNRESET''], SocketState 0 3,
        SocketEmit 0 ''close'' [JNum 1006, JStr []]] live) = Some 0"
  by code_simp

text \<open>
  On a transport as constructed, a \<^verbatim>\<open>connect\<close> to \<^verbatim>\<open>undefined\<close> throws and
  leaves the handle nil.
\<close>

lemma connect_undefined_keeps_nil:
  "ws (run demo_deps [CallConnect JUndefined (JFun 0)] fresh) = None"
  by code_simp

end
